theory Spec2Isabelle
  imports Complex_Main "HOL-Library.Sublist"
begin

section \<open>Python values and string primitives used by \<open>predicate.py\<close>\<close>

text \<open>
  A Python \<open>str\<close> is modelled as a \<open>string\<close> whose characters are the code points
  0..255. The built-in string methods that \<open>predicate.py\<close> calls are written out below
  for this range: \<open>str.isspace\<close>, \<open>str.lower\<close>, \<open>str.strip\<close>, \<open>str.split\<close> without
  argument, \<open>str.join\<close>, \<open>str.replace\<close> of one character by another, \<open>str.startswith\<close>
  and the substring test \<open>a in b\<close>.
\<close>

definition isspace :: "char \<Rightarrow> bool" where
  "isspace c = (of_char c \<in> {9, 10, 11, 12, 13, 28, 29, 30, 31, 32, 133, 160 :: nat})"

definition lower_char :: "char \<Rightarrow> char" where
  "lower_char c =
     (let n = (of_char c :: nat)
      in if (65 \<le> n \<and> n \<le> 90) \<or> (192 \<le> n \<and> n \<le> 222 \<and> n \<noteq> 215)
         then char_of (n + 32) else c)"

definition py_lower :: "string \<Rightarrow> string" where
  "py_lower s = map lower_char s"

definition py_strip :: "string \<Rightarrow> string" where
  "py_strip s = rev (dropWhile isspace (rev (dropWhile isspace s)))"

definition py_replace :: "char \<Rightarrow> char \<Rightarrow> string \<Rightarrow> string" where
  "py_replace old new s = map (\<lambda>c. if c = old then new else c) s"

text \<open>
  \<open>s.split()\<close>: skip a run of whitespace, take the characters up to the next whitespace as
  one word, repeat. No word is empty.
\<close>

function py_split :: "string \<Rightarrow> string list" where
  "py_split s =
     (let t = dropWhile isspace s
      in if t = [] then []
         else takeWhile (\<lambda>c. \<not> isspace c) t # py_split (dropWhile (\<lambda>c. \<not> isspace c) t))"
  by pat_completeness auto
termination
proof (relation "measure length")
  show "wf (measure length)" by simp
next
  fix s t :: string
  assume t: "t = dropWhile isspace s" and ne: "t \<noteq> []"
  have "length (dropWhile (\<lambda>c. \<not> isspace c) t) < length t"
  proof (cases t)
    case Nil
    with ne show ?thesis by simp
  next
    case (Cons c cs)
    have "\<not> isspace (hd t)"
      using t ne by (simp add: hd_dropWhile)
    then have "\<not> isspace c"
      by (simp add: Cons)
    then have "dropWhile (\<lambda>c. \<not> isspace c) t = dropWhile (\<lambda>c. \<not> isspace c) cs"
      using Cons by simp
    then show ?thesis
      using Cons length_dropWhile_le [of "\<lambda>c. \<not> isspace c" cs] by simp
  qed
  moreover have "length t \<le> length s"
    using t length_dropWhile_le [of isspace s] by simp
  ultimately show "(dropWhile (\<lambda>c. \<not> isspace c) t, s) \<in> measure length"
    by simp
qed

fun py_join :: "string \<Rightarrow> string list \<Rightarrow> string" where
  "py_join sep [] = []"
| "py_join sep [w] = w"
| "py_join sep (w # ws) = w @ sep @ py_join sep ws"

definition startswith :: "string \<Rightarrow> string \<Rightarrow> bool" where
  "startswith s pre = (take (length pre) s = pre)"

text \<open>\<open>a in b\<close> for two strings: \<open>a\<close> occurs in \<open>b\<close> at some position.\<close>

fun str_in :: "string \<Rightarrow> string \<Rightarrow> bool" where
  "str_in a [] = (a = [])"
| "str_in a (c # cs) = (startswith (c # cs) a \<or> str_in a cs)"

declare py_split.simps [simp del]

text \<open>
  The values an \<open>obj: Any\<close> field ranges over in this development: \<open>None\<close>, \<open>bool\<close>,
  \<open>int\<close> and \<open>str\<close>. \<open>py_eq\<close> is Python's \<open>==\<close> on them (\<open>bool\<close> is a subclass of
  \<open>int\<close>, so \<open>True == 1\<close>), \<open>py_str\<close> is \<open>str(x)\<close>.
\<close>

datatype pyobj = PyNone | PyBool bool | PyInt int | PyStr string

fun py_num :: "pyobj \<Rightarrow> int option" where
  "py_num (PyBool b) = Some (if b then 1 else 0)"
| "py_num (PyInt i) = Some i"
| "py_num PyNone = None"
| "py_num (PyStr s) = None"

fun py_eq :: "pyobj \<Rightarrow> pyobj \<Rightarrow> bool" where
  "py_eq PyNone y = (y = PyNone)"
| "py_eq (PyStr s) y = (y = PyStr s)"
| "py_eq x y = (py_num x = py_num y)"

definition digit_char :: "nat \<Rightarrow> char" where
  "digit_char d = char_of (48 + d)"

fun str_nat :: "nat \<Rightarrow> string" where
  "str_nat n = (if n < 10 then [digit_char n] else str_nat (n div 10) @ [digit_char (n mod 10)])"

declare str_nat.simps [simp del]

fun py_str :: "pyobj \<Rightarrow> string" where
  "py_str PyNone = ''None''"
| "py_str (PyBool b) = (if b then ''True'' else ''False'')"
| "py_str (PyInt i) = (if i < 0 then CHR ''-'' # str_nat (nat (- i)) else str_nat (nat i))"
| "py_str (PyStr s) = s"

section \<open>The data model\<close>

datatype PredicateType = ASSERTION | PERMISSION | OBLIGATION | RESTRICTION | RELATION

fun PredicateType_value :: "PredicateType \<Rightarrow> string" where
  "PredicateType_value ASSERTION = ''assertion''"
| "PredicateType_value PERMISSION = ''permission''"
| "PredicateType_value OBLIGATION = ''obligation''"
| "PredicateType_value RESTRICTION = ''restriction''"
| "PredicateType_value RELATION = ''relation''"

text \<open>
  The dataclass, with the field types of its annotations. \<open>confidence: float\<close> is a
  rational number here: the code only compares it with 0 and 1 and passes it on.
  \<open>metadata: Dict[str, Any]\<close> is an association list.
\<close>

record Predicate =
  subj :: string
  pred :: string
  obj :: pyobj
  confidence :: rat
  source :: "string option"
  predicate_type :: "PredicateType option"
  metadata :: "(string \<times> pyobj) list"

text \<open>
  The exceptions the module can raise. \<open>ValueError_non_empty\<close> is
  \<open>ValueError("Subject, Predicate and Object must be non-empty")\<close>;
  \<open>ValueError_confidence c\<close> is \<open>ValueError(f"Confidence score must be in range [0, 1],
  got {c}")\<close>, the argument being the value the message prints;
  \<open>ValueError_PredicateType\<close> is the \<open>ValueError\<close> of the call \<open>PredicateType(v)\<close> for a
  \<open>v\<close> that is neither a member nor the value of a member; \<open>KeyError k\<close> is the failed
  lookup \<open>data[k]\<close>; \<open>TypeError_hash n\<close> is the \<open>TypeError\<close> of the built-in \<open>hash\<close>
  called with \<open>n \<noteq> 1\<close> positional arguments. \<open>Ill_typed k\<close> is not a Python exception:
  it marks a record whose value under key \<open>k\<close> does not have the type the dataclass
  annotation gives that field, which the typed record above cannot hold.
\<close>

datatype error =
    ValueError_non_empty
  | ValueError_confidence rat
  | ValueError_PredicateType
  | KeyError string
  | TypeError_hash nat
  | Ill_typed string

section \<open>Construction and validation\<close>

text \<open>
  \<open>__post_init__\<close>: strip the textual fields, then the two checks in the order of the
  source. \<open>not self.subj\<close> on a string is emptiness.
\<close>

definition post_init :: "Predicate \<Rightarrow> error + Predicate" where
  "post_init self0 =
     (let self1 = self0\<lparr>subj := py_strip (subj self0)\<rparr>;
          self2 = self1\<lparr>pred := py_strip (pred self1)\<rparr>;
          self3 = (case obj self2 of PyStr s \<Rightarrow> self2\<lparr>obj := PyStr (py_strip s)\<rparr> | _ \<Rightarrow> self2)
      in if subj self3 = [] \<or> pred self3 = [] \<or> obj self3 = PyNone
         then Inl ValueError_non_empty
         else if \<not> (0 \<le> confidence self3 \<and> confidence self3 \<le> 1)
         then Inl (ValueError_confidence (confidence self3))
         else Inr self3)"

text \<open>The generated \<open>__init__\<close>: store the seven arguments, then run \<open>__post_init__\<close>.\<close>

definition Predicate_init ::
  "string \<Rightarrow> string \<Rightarrow> pyobj \<Rightarrow> rat \<Rightarrow> string option \<Rightarrow> PredicateType option
     \<Rightarrow> (string \<times> pyobj) list \<Rightarrow> error + Predicate" where
  "Predicate_init s r ob c src t m =
     post_init \<lparr>subj = s, pred = r, obj = ob, confidence = c, source = src,
                predicate_type = t, metadata = m\<rparr>"

text \<open>The call with the defaults \<open>confidence=1.0, source=None, predicate_type=None, metadata={}\<close>.\<close>

definition Predicate3 :: "string \<Rightarrow> string \<Rightarrow> pyobj \<Rightarrow> error + Predicate" where
  "Predicate3 s r ob = Predicate_init s r ob 1 None None []"

text \<open>
  A valid Predicate is one that construction returns: running the constructor on its own
  fields gives it back unchanged.
\<close>

definition valid :: "Predicate \<Rightarrow> bool" where
  "valid p = (post_init p = Inr p)"

definition to_triple :: "Predicate \<Rightarrow> string \<times> string \<times> pyobj" where
  "to_triple self = (subj self, pred self, obj self)"

text \<open>Python's \<open>==\<close> on two such tuples: component by component.\<close>

fun triple_eq :: "string \<times> string \<times> pyobj \<Rightarrow> string \<times> string \<times> pyobj \<Rightarrow> bool" where
  "triple_eq (s1, r1, o1) (s2, r2, o2) = (s1 = s2 \<and> r1 = r2 \<and> py_eq o1 o2)"

section \<open>Negation classification\<close>

definition negation_predicates :: "string set" where
  "negation_predicates =
     {''cannot'', ''shall_not'', ''should_not'', ''must_not'', ''is_not'', ''are_not'',
      ''does_not'', ''do_not'', ''forbids'', ''restricts'', ''was_not'', ''were_not'',
      ''ought_not'', ''might_not''}"

definition is_negation :: "Predicate \<Rightarrow> bool" where
  "is_negation self = (pred self \<in> negation_predicates \<or> startswith (pred self) ''not_'')"

section \<open>Matching\<close>

text \<open>
  \<open>_fuzzy_match(s1, s2, threshold)\<close>, with its early returns in the order of the source.
  \<open>intersection / union\<close> is Python's true division of two integers; it is the exact
  quotient here, which compares with the threshold 0.5 as the rounded float does for any
  word sets a string can hold.
\<close>

definition fuzzy_normalize :: "string \<Rightarrow> string" where
  "fuzzy_normalize s =
     py_join '' '' (py_split (py_replace (CHR ''_'') (CHR '' '') (py_strip (py_lower s))))"

definition fuzzy_match :: "string \<Rightarrow> string \<Rightarrow> rat \<Rightarrow> bool" where
  "fuzzy_match s1 s2 threshold =
     (let s1 = fuzzy_normalize s1; s2 = fuzzy_normalize s2
      in if s1 = s2 then True
         else if str_in s1 s2 \<or> str_in s2 s1 then True
         else
           (let words1 = set (py_split s1); words2 = set (py_split s2)
            in if words1 = {} \<or> words2 = {} then False
               else
                 (let intersection = card (words1 \<inter> words2);
                      union = card (words1 \<union> words2)
                  in if union = 0 then False
                     else threshold \<le> of_nat intersection / of_nat union)))"

definition matches :: "Predicate \<Rightarrow> Predicate \<Rightarrow> bool \<Rightarrow> bool" where
  "matches self other fuzzy =
     (if fuzzy
      then fuzzy_match (subj self) (subj other) (1 / 2) \<and> pred self = pred other
             \<and> fuzzy_match (py_str (obj self)) (py_str (obj other)) (1 / 2)
      else triple_eq (to_triple self) (to_triple other))"

section \<open>Equality and hashing\<close>

text \<open>
  The class defines \<open>__eq__\<close> and \<open>__hash__\<close> itself, and \<open>@dataclass\<close> leaves methods
  that the class defines in place. \<open>__eq__\<close> against another Predicate (the \<open>isinstance\<close>
  test holds by typing):
\<close>

definition Predicate_eq :: "Predicate \<Rightarrow> Predicate \<Rightarrow> bool" where
  "Predicate_eq self other = triple_eq (to_triple self) (to_triple other)"

text \<open>
  The built-in \<open>hash\<close> takes exactly one argument and raises \<open>TypeError\<close> on any other
  number of them. The hash of one object is the interpreter's business (string hashes are
  salted per process), so it is a parameter \<open>h\<close>.
\<close>

definition builtin_hash :: "(pyobj \<Rightarrow> int) \<Rightarrow> pyobj list \<Rightarrow> error + int" where
  "builtin_hash h args = (case args of [x] \<Rightarrow> Inr (h x) | _ \<Rightarrow> Inl (TypeError_hash (length args)))"

text \<open>\<open>__hash__\<close>: \<open>return hash(self.subj, self.pred, str(self.obj))\<close>.\<close>

definition Predicate_hash :: "(pyobj \<Rightarrow> int) \<Rightarrow> Predicate \<Rightarrow> error + int" where
  "Predicate_hash h self =
     builtin_hash h [PyStr (subj self), PyStr (pred self), PyStr (py_str (obj self))]"

section \<open>Conversion to and from a dict\<close>

text \<open>
  The values found in such a dict: the objects above, a float, a \<open>PredicateType\<close> member
  (\<open>to_dict\<close> stores the member itself), and a metadata dict.
\<close>

datatype dval = VObj pyobj | VFloat rat | VEnum PredicateType | VDict "(string \<times> pyobj) list"

fun obj_truthy :: "pyobj \<Rightarrow> bool" where
  "obj_truthy PyNone = False"
| "obj_truthy (PyBool b) = b"
| "obj_truthy (PyInt i) = (i \<noteq> 0)"
| "obj_truthy (PyStr s) = (s \<noteq> [])"

fun truthy :: "dval \<Rightarrow> bool" where
  "truthy (VObj x) = obj_truthy x"
| "truthy (VFloat r) = (r \<noteq> 0)"
| "truthy (VEnum t) = True"
| "truthy (VDict m) = (m \<noteq> [])"

definition to_dict :: "Predicate \<Rightarrow> (string \<rightharpoonup> dval)" where
  "to_dict self =
     [''subject'' \<mapsto> VObj (PyStr (subj self)),
      ''predicate'' \<mapsto> VObj (PyStr (pred self)),
      ''object'' \<mapsto> VObj (obj self),
      ''confidence'' \<mapsto> VFloat (confidence self),
      ''source'' \<mapsto> VObj (case source self of None \<Rightarrow> PyNone | Some s \<Rightarrow> PyStr s),
      ''type'' \<mapsto> (case predicate_type self of None \<Rightarrow> VObj PyNone | Some t \<Rightarrow> VEnum t),
      ''metadata'' \<mapsto> VDict (metadata self)]"

text \<open>
  The call \<open>PredicateType(v)\<close>: a member is returned as it is, a string is looked up
  among the members' values, anything else (\<open>None\<close> included) raises \<open>ValueError\<close>.
\<close>

fun PredicateType_call :: "dval \<Rightarrow> error + PredicateType" where
  "PredicateType_call (VEnum t) = Inr t"
| "PredicateType_call (VObj (PyStr s)) =
     (case find (\<lambda>t. PredicateType_value t = s)
             [ASSERTION, PERMISSION, OBLIGATION, RESTRICTION, RELATION] of
        Some t \<Rightarrow> Inr t
      | None \<Rightarrow> Inl ValueError_PredicateType)"
| "PredicateType_call v = Inl ValueError_PredicateType"

text \<open>\<open>data.get(k, d)\<close> and \<open>data[k]\<close>.\<close>

definition dict_get :: "(string \<rightharpoonup> dval) \<Rightarrow> string \<Rightarrow> dval \<Rightarrow> dval" where
  "dict_get data k d = (case data k of None \<Rightarrow> d | Some v \<Rightarrow> v)"

definition dict_item :: "(string \<rightharpoonup> dval) \<Rightarrow> string \<Rightarrow> error + dval" where
  "dict_item data k = (case data k of None \<Rightarrow> Inl (KeyError k) | Some v \<Rightarrow> Inr v)"

text \<open>
  The call \<open>cls(subj=.., pred=.., obj=.., confidence=.., source=.., predicate_type=..,
  metadata=..)\<close> on values taken from a dict: each value is read at the type of its field.
\<close>

definition cls ::
  "dval \<Rightarrow> dval \<Rightarrow> dval \<Rightarrow> dval \<Rightarrow> dval \<Rightarrow> PredicateType \<Rightarrow> dval \<Rightarrow> error + Predicate" where
  "cls s r ob c src t m =
     (case s of VObj (PyStr s') \<Rightarrow>
       (case r of VObj (PyStr r') \<Rightarrow>
         (case ob of VObj ob' \<Rightarrow>
           (case (case c of VFloat q \<Rightarrow> Some q | VObj x \<Rightarrow> map_option of_int (py_num x)
                          | _ \<Rightarrow> None) of
              Some c' \<Rightarrow>
               (case (case src of VObj PyNone \<Rightarrow> Some None | VObj (PyStr x) \<Rightarrow> Some (Some x)
                               | _ \<Rightarrow> None) of
                  Some src' \<Rightarrow>
                   (case m of VDict m' \<Rightarrow> Predicate_init s' r' ob' c' src' (Some t) m'
                            | _ \<Rightarrow> Inl (Ill_typed ''metadata''))
                | None \<Rightarrow> Inl (Ill_typed ''source''))
            | None \<Rightarrow> Inl (Ill_typed ''confidence''))
         | _ \<Rightarrow> Inl (Ill_typed ''obj''))
       | _ \<Rightarrow> Inl (Ill_typed ''predicate''))
     | _ \<Rightarrow> Inl (Ill_typed ''subject''))"

text \<open>
  \<open>from_dict\<close>, statement by statement: first
  \<open>pred_type = PredicateType(data["type"] if data.get("type") else None)\<close>, then the
  arguments of the call in the order they are written, \<open>data["subject"]\<close>,
  \<open>data["predicate"]\<close>, \<open>data['obj']\<close>, and the three \<open>data.get\<close> with their defaults.
\<close>

definition from_dict :: "(string \<rightharpoonup> dval) \<Rightarrow> error + Predicate" where
  "from_dict data =
     (case PredicateType_call
             (if truthy (dict_get data ''type'' (VObj PyNone))
              then dict_get data ''type'' (VObj PyNone) else VObj PyNone) of
        Inl e \<Rightarrow> Inl e
      | Inr pred_type \<Rightarrow>
         (case dict_item data ''subject'' of
            Inl e \<Rightarrow> Inl e
          | Inr s \<Rightarrow>
             (case dict_item data ''predicate'' of
                Inl e \<Rightarrow> Inl e
              | Inr r \<Rightarrow>
                 (case dict_item data ''obj'' of
                    Inl e \<Rightarrow> Inl e
                  | Inr ob \<Rightarrow>
                     cls s r ob
                       (dict_get data ''confidence'' (VFloat 1))
                       (dict_get data ''source'' (VObj PyNone))
                       pred_type
                       (dict_get data ''metadata'' (VDict []))))))"

section \<open>The approximate-equality rule in the words of the specification\<close>

text \<open>
  Collapsing whitespace runs: every maximal run of whitespace characters becomes one
  space.
\<close>

function collapse_ws :: "string \<Rightarrow> string" where
  "collapse_ws [] = []"
| "collapse_ws (c # cs) =
     (if isspace c then CHR '' '' # collapse_ws (dropWhile isspace cs) else c # collapse_ws cs)"
  by pat_completeness auto
termination
  by (relation "measure length") (auto simp: less_Suc_eq_le length_dropWhile_le)

text \<open>
  The four steps in the order the specification lists them: lowercase, strip, replace
  underscores by spaces, collapse whitespace runs.
\<close>

definition normalize_steps :: "string \<Rightarrow> string" where
  "normalize_steps s =
     collapse_ws (py_replace (CHR ''_'') (CHR '' '') (py_strip (py_lower s)))"

text \<open>The same, with the result stripped once more.\<close>

definition normalize_trimmed :: "string \<Rightarrow> string" where
  "normalize_trimmed s = py_strip (normalize_steps s)"

text \<open>The token set of a string: its whitespace-separated words.\<close>

definition tokens :: "string \<Rightarrow> string set" where
  "tokens s = set (py_split s)"

definition jaccard :: "string set \<Rightarrow> string set \<Rightarrow> rat" where
  "jaccard A B = of_nat (card (A \<inter> B)) / of_nat (card (A \<union> B))"

text \<open>
  Two strings are approximately equal under a normalization \<open>nf\<close> when the normalized
  strings are identical, or one is a substring of the other, or both token sets are
  non-empty and their Jaccard similarity is at least one half.
\<close>

definition approx_equal :: "(string \<Rightarrow> string) \<Rightarrow> string \<Rightarrow> string \<Rightarrow> bool" where
  "approx_equal nf s1 s2 =
     (let a = nf s1; b = nf s2
      in a = b \<or> sublist a b \<or> sublist b a
         \<or> (tokens a \<noteq> {} \<and> tokens b \<noteq> {} \<and> 1 / 2 \<le> jaccard (tokens a) (tokens b)))"

section \<open>Example instances\<close>

text \<open>
  The instance that holds the given triple as it is, with the default values of the other
  fields.
\<close>

definition P :: "string \<Rightarrow> string \<Rightarrow> pyobj \<Rightarrow> Predicate" where
  "P s r ob = \<lparr>subj = s, pred = r, obj = ob, confidence = 1, source = None,
               predicate_type = None, metadata = []\<rparr>"

section \<open>Facts about the string primitives\<close>

lemma startswith_prefix: "startswith s pre \<longleftrightarrow> prefix pre s"
  unfolding startswith_def
  by (metis prefix_def append_eq_conv_conj take_is_prefix)

lemma str_in_sublist: "str_in a b \<longleftrightarrow> sublist a b"
  by (induction b) (auto simp: startswith_prefix sublist_Cons_right)

lemma dropWhile_rstrip:
  assumes "a = [] \<or> \<not> Q (hd a)"
  shows "dropWhile Q (rev (dropWhile Q (rev a))) = rev (dropWhile Q (rev a))"
proof (cases "rev (dropWhile Q (rev a)) = []")
  case True
  show ?thesis by (simp only: True dropWhile.simps)
next
  case False
  define r where "r = rev (dropWhile Q (rev a))"
  have split: "a = r @ rev (takeWhile Q (rev a))"
    unfolding r_def by (metis rev_append rev_rev_ident takeWhile_dropWhile_id)
  have "r \<noteq> []" using False by (simp add: r_def)
  then have "hd a = hd r" and "a \<noteq> []"
    using split by (metis hd_append2, metis append_is_Nil_conv)
  with assms have "\<not> Q (hd r)" by simp
  then have "dropWhile Q r = r"
    by (simp add: dropWhile_eq_self_iff)
  then show ?thesis by (simp add: r_def)
qed

lemma lstrip_of_rstrip:
  "dropWhile isspace (rev (dropWhile isspace (rev (dropWhile isspace s))))
     = rev (dropWhile isspace (rev (dropWhile isspace s)))"
proof (rule dropWhile_rstrip)
  show "dropWhile isspace s = [] \<or> \<not> isspace (hd (dropWhile isspace s))"
    using hd_dropWhile [of isspace s] by blast
qed

lemma py_strip_idem: "py_strip (py_strip s) = py_strip s"
  unfolding py_strip_def by (simp add: lstrip_of_rstrip)

lemma post_init_valid: "post_init p = Inr q \<Longrightarrow> valid q"
  unfolding valid_def post_init_def Let_def
  by (auto split: if_splits pyobj.splits simp: py_strip_idem)

lemma py_eq_refl: "py_eq x x"
  by (cases x) simp_all



lemma post_init_cases:
  "post_init p =
     (if py_strip (subj p) = [] \<or> py_strip (pred p) = [] \<or> obj p = PyNone
      then Inl ValueError_non_empty
      else if confidence p < 0 \<or> 1 < confidence p
      then Inl (ValueError_confidence (confidence p))
      else Inr (p\<lparr>subj := py_strip (subj p), pred := py_strip (pred p),
                  obj := (case obj p of PyStr x \<Rightarrow> PyStr (py_strip x) | y \<Rightarrow> y)\<rparr>))"
  unfolding post_init_def Let_def
  by (cases "obj p") (auto simp: not_le)



text \<open>
  Joining the words of a string with single spaces is collapsing its whitespace runs and
  stripping the result.
\<close>

lemma isspace_space: "isspace (CHR '' '')"
  by (simp add: isspace_def)

lemma collapse_ws_nonspace_prefix:
  "\<forall>c\<in>set w. \<not> isspace c \<Longrightarrow> collapse_ws (w @ rest) = w @ collapse_ws rest"
  by (induction w) simp_all

lemma collapse_ws_space_head:
  "rest \<noteq> [] \<Longrightarrow> isspace (hd rest) \<Longrightarrow>
     collapse_ws rest = CHR '' '' # collapse_ws (dropWhile isspace rest)"
  by (cases rest) simp_all

lemma collapse_ws_all_space:
  assumes "\<forall>c\<in>set x. isspace c"
  shows "\<forall>c\<in>set (collapse_ws x). isspace c"
proof (cases x)
  case Nil
  then show ?thesis by simp
next
  case (Cons c cs)
  from assms Cons have c: "isspace c" by simp
  from assms Cons have dw: "dropWhile isspace cs = []" by simp
  have "collapse_ws x = [CHR '' '']"
    unfolding Cons using c by (simp only: collapse_ws.simps dw if_True)
  then show ?thesis by (simp add: isspace_space)
qed

lemma collapse_ws_nonspace_head:
  "x \<noteq> [] \<Longrightarrow> \<not> isspace (hd x) \<Longrightarrow> collapse_ws x \<noteq> [] \<and> hd (collapse_ws x) = hd x"
  by (cases x) simp_all

lemma lstrip_collapse_ws:
  "dropWhile isspace (collapse_ws s) = collapse_ws (dropWhile isspace s)"
proof -
  have fx: "dropWhile isspace (collapse_ws x) = collapse_ws x"
    if "x = [] \<or> \<not> isspace (hd x)" for x
    using that by (cases x) auto
  have t: "dropWhile isspace s = [] \<or> \<not> isspace (hd (dropWhile isspace s))"
    using hd_dropWhile [of isspace s] by blast
  show ?thesis
  proof (cases s)
    case Nil
    then show ?thesis by simp
  next
    case (Cons c cs)
    show ?thesis
    proof (cases "isspace c")
      case True
      then have "dropWhile isspace s = dropWhile isspace cs"
        by (simp add: Cons)
      with True Cons fx [OF t] show ?thesis
        by (simp add: isspace_space)
    next
      case False
      then show ?thesis using Cons by simp
    qed
  qed
qed

lemma rstrip_append_nonspace:
  assumes "\<exists>c\<in>set x. \<not> isspace c"
  shows "rev (dropWhile isspace (rev (a @ x))) = a @ rev (dropWhile isspace (rev x))"
proof -
  from assms obtain c where "c \<in> set (rev x)" and "\<not> isspace c" by auto
  then have "dropWhile isspace (rev x @ rev a) = dropWhile isspace (rev x) @ rev a"
    by (rule dropWhile_append1)
  then show ?thesis by simp
qed

lemma rstrip_append_space:
  assumes "\<forall>c\<in>set x. isspace c"
  shows "rev (dropWhile isspace (rev (a @ x))) = rev (dropWhile isspace (rev a))"
proof -
  have "dropWhile isspace (rev x @ rev a) = dropWhile isspace (rev a)"
    by (rule dropWhile_append2) (use assms in simp)
  then show ?thesis by simp
qed

lemma rstrip_nonspace:
  assumes "\<forall>c\<in>set w. \<not> isspace c"
  shows "rev (dropWhile isspace (rev w)) = w"
proof -
  have "dropWhile isspace (rev w) = rev w"
    using assms by (cases "rev w") auto
  then show ?thesis by simp
qed

lemma py_split_Nil: "dropWhile isspace s = [] \<Longrightarrow> py_split s = []"
  by (simp add: py_split.simps)

lemma py_split_Cons:
  "dropWhile isspace s \<noteq> [] \<Longrightarrow>
     py_split s = takeWhile (\<lambda>c. \<not> isspace c) (dropWhile isspace s)
                   # py_split (dropWhile (\<lambda>c. \<not> isspace c) (dropWhile isspace s))"
  by (simp add: py_split.simps Let_def)

lemma join_split_collapse:
  "py_join '' '' (py_split s) = py_strip (collapse_ws s)"
proof (induction s rule: py_split.induct)
  case (1 s)
  define t where "t = dropWhile isspace s"
  have strip: "py_strip (collapse_ws x) = rev (dropWhile isspace (rev (collapse_ws (dropWhile isspace x))))"
    for x by (simp add: py_strip_def lstrip_collapse_ws)
  show ?case
  proof (cases "t = []")
    case True
    then have dw: "dropWhile isspace s = []"
      by (simp only: t_def)
    have "py_split s = []"
      using dw by (rule py_split_Nil)
    moreover have "py_strip (collapse_ws s) = []"
      by (simp only: strip dw collapse_ws.simps rev.simps dropWhile.simps)
    ultimately show ?thesis by simp
  next
    case False
    define w where "w = takeWhile (\<lambda>c. \<not> isspace c) t"
    define rest where "rest = dropWhile (\<lambda>c. \<not> isspace c) t"
    define u where "u = dropWhile isspace rest"
    have t_eq: "t = w @ rest"
      by (simp add: w_def rest_def)
    have w_ns: "\<forall>c\<in>set w. \<not> isspace c"
      unfolding w_def by (auto dest: set_takeWhileD)
    have sp: "py_split s = w # py_split rest"
      using False by (simp add: py_split_Cons t_def w_def rest_def)
    have IH: "py_join '' '' (py_split rest) = py_strip (collapse_ws rest)"
      using "1.IH" [of t] False by (simp add: t_def rest_def)
    have col: "collapse_ws t = w @ collapse_ws rest"
      unfolding t_eq using w_ns by (rule collapse_ws_nonspace_prefix)
    show ?thesis
    proof (cases "u = []")
      case True
      then have "py_split rest = []"
        by (simp add: py_split_Nil u_def)
      moreover have "\<forall>c\<in>set rest. isspace c"
        using True unfolding u_def by simp
      then have "\<forall>c\<in>set (collapse_ws rest). isspace c"
        by (rule collapse_ws_all_space)
      then have "rev (dropWhile isspace (rev (w @ collapse_ws rest))) = rev (dropWhile isspace (rev w))"
        by (rule rstrip_append_space)
      ultimately show ?thesis
        using rstrip_nonspace [OF w_ns] by (simp add: sp strip col flip: t_def)
    next
      case False
      then have ne: "py_split rest \<noteq> []"
        by (simp add: py_split_Cons u_def)
      then obtain x xs where xs: "py_split rest = x # xs"
        by (cases "py_split rest") auto
      have rest_ne: "rest \<noteq> []" using False by (auto simp: u_def)
      then have "isspace (hd rest)"
        using hd_dropWhile [of "\<lambda>c. \<not> isspace c" t] by (simp add: rest_def)
      with rest_ne have cr: "collapse_ws rest = CHR '' '' # collapse_ws u"
        unfolding u_def by (rule collapse_ws_space_head)
      have "\<not> isspace (hd u)"
        using False hd_dropWhile [of isspace rest] by (simp add: u_def)
      with False have "collapse_ws u \<noteq> [] \<and> hd (collapse_ws u) = hd u"
        by (simp add: collapse_ws_nonspace_head)
      with \<open>\<not> isspace (hd u)\<close> have "\<exists>c\<in>set (collapse_ws u). \<not> isspace c"
        by (metis hd_in_set)
      then have "rev (dropWhile isspace (rev ((w @ '' '') @ collapse_ws u)))
                   = (w @ '' '') @ rev (dropWhile isspace (rev (collapse_ws u)))"
        by (rule rstrip_append_nonspace)
      moreover have "py_join '' '' (py_split rest) = rev (dropWhile isspace (rev (collapse_ws u)))"
        using IH by (simp add: strip u_def)
      ultimately show ?thesis
        by (simp add: sp xs [symmetric] strip col cr flip: t_def) (simp add: xs)
    qed
  qed
qed

lemma fuzzy_normalize_trimmed: "fuzzy_normalize s = normalize_trimmed s"
  by (simp add: fuzzy_normalize_def normalize_trimmed_def normalize_steps_def join_split_collapse)

lemma fuzzy_match_sym: "fuzzy_match s1 s2 t = fuzzy_match s2 s1 t"
  unfolding fuzzy_match_def Let_def
  by (simp add: Int_commute Un_commute disj_commute eq_commute [of "fuzzy_normalize s1"])

lemma fuzzy_match_approx: "fuzzy_match s1 s2 (1 / 2) = approx_equal normalize_trimmed s1 s2"
proof -
  have u: "card (set xs \<union> set ys) = 0 \<longleftrightarrow> set xs = {} \<and> set ys = {}" for xs ys :: "string list"
    by simp
  show ?thesis
    unfolding fuzzy_match_def approx_equal_def Let_def tokens_def jaccard_def
      str_in_sublist fuzzy_normalize_trimmed [symmetric]
    by (simp only: u) auto
qed

section \<open>Construction\<close>

text \<open>
  C4. Construction fails exactly when the subject or the relation is empty after
  stripping, the object is \<open>None\<close>, or the confidence is outside \<open>[0, 1]\<close>. The first
  three give the "must be non-empty" error, the last gives the error that carries the
  offending confidence. Failure returns an error and no instance; an instance that is
  returned is valid.
\<close>

theorem construction_fails_exactly_when:
  "((\<exists>e. Predicate_init s r ob c src t m = Inl e) \<longleftrightarrow>
      (py_strip s = [] \<or> py_strip r = [] \<or> ob = PyNone \<or> c < 0 \<or> 1 < c))
   \<and> (py_strip s = [] \<or> py_strip r = [] \<or> ob = PyNone
        \<longrightarrow> Predicate_init s r ob c src t m = Inl ValueError_non_empty)
   \<and> (py_strip s \<noteq> [] \<and> py_strip r \<noteq> [] \<and> ob \<noteq> PyNone \<and> (c < 0 \<or> 1 < c)
        \<longrightarrow> Predicate_init s r ob c src t m = Inl (ValueError_confidence c))
   \<and> (\<forall>p. Predicate_init s r ob c src t m = Inr p \<longrightarrow> valid p)"
proof -
  have v: "\<forall>p. Predicate_init s r ob c src t m = Inr p \<longrightarrow> valid p"
    unfolding Predicate_init_def using post_init_valid by blast
  show ?thesis
    using v by (simp add: Predicate_init_def post_init_cases)
qed

theorem construction_fails_exactly_when_witness:
  "Predicate_init ''s'' ''r'' (PyStr ''o'') (3 / 2) None None [] = Inl (ValueError_confidence (3 / 2))
   \<and> Predicate_init ''  '' ''r'' (PyStr ''o'') 1 None None [] = Inl ValueError_non_empty
   \<and> Predicate_init ''s'' ''r'' PyNone 1 None None [] = Inl ValueError_non_empty
   \<and> valid (P ''s'' ''r'' (PyStr ''o''))"
proof -
  have a: "py_strip ''s'' \<noteq> [] \<and> py_strip ''r'' \<noteq> [] \<and> PyStr ''o'' \<noteq> PyNone \<and> ((3 / 2 :: rat) < 0 \<or> 1 < (3 / 2 :: rat))"
    by code_simp
  have b: "py_strip ''  '' = [] \<or> py_strip ''r'' = [] \<or> PyStr ''o'' = PyNone"
    by code_simp
  have c: "Predicate_init ''s'' ''r'' (PyStr ''o'') 1 None None [] = Inr (P ''s'' ''r'' (PyStr ''o''))"
    by code_simp
  show ?thesis
    using a b c
      construction_fails_exactly_when [of "''s''" "''r''" "PyStr ''o''" "3 / 2" None None "[]"]
      construction_fails_exactly_when [of "''  ''" "''r''" "PyStr ''o''" 1 None None "[]"]
      construction_fails_exactly_when [of "''s''" "''r''" "PyNone" 1 None None "[]"]
      construction_fails_exactly_when [of "''s''" "''r''" "PyStr ''o''" 1 None None "[]"]
    by blast
qed

text \<open>
  C10. With a non-blank subject and relation and a confidence in range, construction
  succeeds for every object other than \<open>None\<close>; for the empty string, \<open>0\<close> and \<open>False\<close>
  the object is stored unchanged, and the instance whose object is the empty string is
  valid.
\<close>

theorem falsy_object_constructs:
  assumes "py_strip s \<noteq> []" and "py_strip r \<noteq> []" and "0 \<le> c" and "c \<le> 1"
  shows "(ob \<noteq> PyNone \<longrightarrow> (\<exists>p. Predicate_init s r ob c src t m = Inr p \<and> valid p))
    \<and> (ob \<in> {PyStr [], PyInt 0, PyBool False} \<longrightarrow>
         Predicate_init s r ob c src t m =
           Inr \<lparr>subj = py_strip s, pred = py_strip r, obj = ob, confidence = c,
                source = src, predicate_type = t, metadata = m\<rparr>)
    \<and> valid \<lparr>subj = py_strip s, pred = py_strip r, obj = PyStr [], confidence = c,
                source = src, predicate_type = t, metadata = m\<rparr>"
proof -
  have 1: "ob \<noteq> PyNone \<longrightarrow> (\<exists>p. Predicate_init s r ob c src t m = Inr p \<and> valid p)"
  proof
    assume "ob \<noteq> PyNone"
    with assms obtain p where p: "Predicate_init s r ob c src t m = Inr p"
      by (simp add: Predicate_init_def post_init_cases not_less)
    then have "valid p"
      unfolding Predicate_init_def by (rule post_init_valid)
    with p show "\<exists>p. Predicate_init s r ob c src t m = Inr p \<and> valid p" by blast
  qed
  have 2: "ob \<in> {PyStr [], PyInt 0, PyBool False} \<longrightarrow>
         Predicate_init s r ob c src t m =
           Inr \<lparr>subj = py_strip s, pred = py_strip r, obj = ob, confidence = c,
                source = src, predicate_type = t, metadata = m\<rparr>"
    using assms by (auto simp: Predicate_init_def post_init_cases not_less py_strip_def)
  have "Predicate_init s r (PyStr []) c src t m =
           Inr \<lparr>subj = py_strip s, pred = py_strip r, obj = PyStr [], confidence = c,
                source = src, predicate_type = t, metadata = m\<rparr>"
    using assms by (auto simp: Predicate_init_def post_init_cases not_less py_strip_def)
  then have 3: "valid \<lparr>subj = py_strip s, pred = py_strip r, obj = PyStr [], confidence = c,
                source = src, predicate_type = t, metadata = m\<rparr>"
    unfolding Predicate_init_def by (rule post_init_valid)
  from 1 2 3 show ?thesis by blast
qed

theorem falsy_object_constructs_witness:
  "Predicate_init ''s'' ''r'' (PyStr []) 1 None None [] = Inr (P ''s'' ''r'' (PyStr []))
   \<and> valid (P ''s'' ''r'' (PyStr []))
   \<and> (\<exists>p. Predicate_init ''s'' ''r'' (PyInt 0) 1 None None [] = Inr p \<and> valid p)"
proof -
  have s: "py_strip ''s'' = ''s''" and r: "py_strip ''r'' = ''r''"
    by code_simp+
  have ne: "py_strip ''s'' \<noteq> []" "py_strip ''r'' \<noteq> []"
    by (simp_all add: s r)
  have c: "(0::rat) \<le> 1" "(1::rat) \<le> 1"
    by simp_all
  show ?thesis
    using falsy_object_constructs [OF ne c, of "PyStr []" None None "[]"]
      falsy_object_constructs [OF ne c, of "PyInt 0" None None "[]"]
    by (auto simp: s r P_def)
qed

section \<open>Negation classification\<close>

text \<open>
  C9. \<open>is_negation\<close> holds exactly when the relation is one of the fourteen listed
  tokens, compared as they are, or starts with \<open>not_\<close>. It holds for the relations
  \<open>cannot\<close> and \<open>not_allowed\<close> and not for \<open>allows\<close>. It is a total function of the
  instance: there is no failing case.
\<close>

theorem is_negation_iff:
  "(is_negation p \<longleftrightarrow>
      pred p \<in> {''cannot'', ''shall_not'', ''should_not'', ''must_not'', ''is_not'', ''are_not'',
        ''does_not'', ''do_not'', ''forbids'', ''restricts'', ''was_not'', ''were_not'',
        ''ought_not'', ''might_not''}
      \<or> prefix ''not_'' (pred p))
   \<and> is_negation (P s ''cannot'' ob)
   \<and> is_negation (P s ''not_allowed'' ob)
   \<and> \<not> is_negation (P s ''allows'' ob)"
  by (simp add: is_negation_def negation_predicates_def startswith_prefix P_def)

section \<open>Exact matching\<close>




section \<open>Fuzzy matching\<close>

text \<open>
  C3, amended. \<open>matches\<close> with \<open>fuzzy = True\<close> holds exactly when the relations are equal
  as they are, the subjects are approximately equal, and the objects turned into strings
  are approximately equal; two strings being approximately equal when, after lowercasing,
  stripping, replacing underscores by spaces, collapsing whitespace runs and stripping the
  result once more, they are identical, or one is a substring of the other, or both token
  sets are non-empty and their Jaccard similarity is at least 0.5. The two instances of
  the MIT example are what construction returns; they match with \<open>fuzzy = True\<close> and do
  not with \<open>fuzzy = False\<close>.
\<close>

theorem matches_fuzzy_iff:
  "(matches a b True \<longleftrightarrow>
      pred a = pred b
      \<and> approx_equal normalize_trimmed (subj a) (subj b)
      \<and> approx_equal normalize_trimmed (py_str (obj a)) (py_str (obj b)))
   \<and> Predicate3 ''MIT License'' ''allows'' (PyStr ''commercial_use'')
        = Inr (P ''MIT License'' ''allows'' (PyStr ''commercial_use''))
   \<and> Predicate3 ''MIT'' ''allows'' (PyStr ''commercial use'')
        = Inr (P ''MIT'' ''allows'' (PyStr ''commercial use''))
   \<and> matches (P ''MIT License'' ''allows'' (PyStr ''commercial_use''))
        (P ''MIT'' ''allows'' (PyStr ''commercial use'')) True
   \<and> \<not> matches (P ''MIT License'' ''allows'' (PyStr ''commercial_use''))
        (P ''MIT'' ''allows'' (PyStr ''commercial use'')) False"
proof (intro conjI)
  show "matches a b True \<longleftrightarrow>
      pred a = pred b
      \<and> approx_equal normalize_trimmed (subj a) (subj b)
      \<and> approx_equal normalize_trimmed (py_str (obj a)) (py_str (obj b))"
    by (auto simp: matches_def fuzzy_match_approx)
  show "Predicate3 ''MIT License'' ''allows'' (PyStr ''commercial_use'')
        = Inr (P ''MIT License'' ''allows'' (PyStr ''commercial_use''))"
    by code_simp
  show "Predicate3 ''MIT'' ''allows'' (PyStr ''commercial use'')
        = Inr (P ''MIT'' ''allows'' (PyStr ''commercial use''))"
    by code_simp
  show "matches (P ''MIT License'' ''allows'' (PyStr ''commercial_use''))
        (P ''MIT'' ''allows'' (PyStr ''commercial use'')) True"
    by code_simp
  show "\<not> matches (P ''MIT License'' ''allows'' (PyStr ''commercial_use''))
        (P ''MIT'' ''allows'' (PyStr ''commercial use'')) False"
    by code_simp
qed

text \<open>
  C3 as stated, with the four normalization steps and no second stripping, fails: the
  subject \<open>python_\<close> normalizes to \<open>python\<close> followed by a space, which is neither a
  substring of \<open>pythonic\<close> nor shares a word with it, while \<open>matches\<close> accepts the pair
  (the code joins the words, so it compares \<open>python\<close> with \<open>pythonic\<close>).
\<close>

theorem matches_fuzzy_steps_counterexample:
  "valid (P ''python_'' ''is'' (PyStr ''language''))
   \<and> valid (P ''pythonic'' ''is'' (PyStr ''language''))
   \<and> matches (P ''python_'' ''is'' (PyStr ''language'')) (P ''pythonic'' ''is'' (PyStr ''language'')) True
   \<and> normalize_steps ''python_'' = ''python ''
   \<and> \<not> approx_equal normalize_steps ''python_'' ''pythonic''"
  by code_simp

text \<open>
  C8. Fuzzy matching is symmetric. It is not transitive: \<open>MIT License\<close> matches \<open>MIT\<close>
  and \<open>MIT\<close> matches \<open>MIT Press\<close> (substring both times), but \<open>MIT License\<close> does not
  match \<open>MIT Press\<close> (one shared word of three). All three instances are valid.
\<close>

theorem fuzzy_symmetric_not_transitive:
  "(matches a b True \<longleftrightarrow> matches b a True)
   \<and> valid (P ''MIT License'' ''allows'' (PyStr ''use''))
   \<and> valid (P ''MIT'' ''allows'' (PyStr ''use''))
   \<and> valid (P ''MIT Press'' ''allows'' (PyStr ''use''))
   \<and> matches (P ''MIT License'' ''allows'' (PyStr ''use'')) (P ''MIT'' ''allows'' (PyStr ''use'')) True
   \<and> matches (P ''MIT'' ''allows'' (PyStr ''use'')) (P ''MIT Press'' ''allows'' (PyStr ''use'')) True
   \<and> \<not> matches (P ''MIT License'' ''allows'' (PyStr ''use'')) (P ''MIT Press'' ''allows'' (PyStr ''use'')) True"
proof (intro conjI)
  show "matches a b True \<longleftrightarrow> matches b a True"
    using fuzzy_match_sym [of "subj a" "subj b"] fuzzy_match_sym [of "py_str (obj a)" "py_str (obj b)"]
    by (auto simp: matches_def)
qed code_simp+

text \<open>
  C6. When one side of a comparison normalizes to the empty string, \<open>_fuzzy_match\<close>
  returns \<open>True\<close>, whatever the other side and the threshold are: the empty string is a
  substring of every string, and the substring test returns before the test for empty
  word sets is reached.
\<close>

theorem empty_side_always_matches:
  "fuzzy_normalize s1 = [] \<or> fuzzy_normalize s2 = [] \<longrightarrow> fuzzy_match s1 s2 t"
  by (auto simp: fuzzy_match_def Let_def str_in_sublist)

theorem empty_side_always_matches_witness:
  "valid (P ''_'' ''r'' (PyStr ''x'')) \<and> valid (P ''abc'' ''r'' (PyStr ''x''))
   \<and> fuzzy_normalize ''_'' = [] \<and> fuzzy_normalize ''abc'' = ''abc''
   \<and> fuzzy_match ''_'' ''abc'' (1 / 2)
   \<and> matches (P ''_'' ''r'' (PyStr ''x'')) (P ''abc'' ''r'' (PyStr ''x'')) True"
proof -
  have e: "fuzzy_normalize ''_'' = []" by code_simp
  have f: "fuzzy_match ''_'' ''abc'' (1 / 2)"
    using e empty_side_always_matches [of "''_''" "''abc''" "1 / 2"] by blast
  have x: "fuzzy_match ''x'' ''x'' (1 / 2)" by code_simp
  have m: "matches (P ''_'' ''r'' (PyStr ''x'')) (P ''abc'' ''r'' (PyStr ''x'')) True"
    using f x by (simp add: matches_def P_def)
  have v: "valid (P ''_'' ''r'' (PyStr ''x'')) \<and> valid (P ''abc'' ''r'' (PyStr ''x''))
      \<and> fuzzy_normalize ''abc'' = ''abc''"
    by code_simp
  from e f m v show ?thesis by blast
qed

section \<open>Hashing\<close>

text \<open>
  C2. \<open>__hash__\<close> calls the built-in \<open>hash\<close> with three positional arguments, so
  hashing any instance raises \<open>TypeError\<close>, whatever the hash function of the interpreter
  is: no hash value is produced. \<open>__eq__\<close> does hold between an instance and any other
  with the same triple.
\<close>

theorem hash_fails:
  "Predicate_hash h p = Inl (TypeError_hash 3)
   \<and> Predicate_eq p (p\<lparr>confidence := c, source := src, predicate_type := t, metadata := m\<rparr>)"
  by (simp add: Predicate_hash_def builtin_hash_def Predicate_eq_def to_triple_def py_eq_refl)

section \<open>The round trip through a dict\<close>

text \<open>
  C1. \<open>from_dict (to_dict p)\<close> fails for every instance \<open>p\<close>: with the \<open>ValueError\<close> of
  \<open>PredicateType(None)\<close> when \<open>p\<close> has no type, and otherwise with \<open>KeyError('obj')\<close>, since
  \<open>to_dict\<close> writes the key \<open>object\<close> and \<open>from_dict\<close> reads the key \<open>obj\<close>.
\<close>

theorem roundtrip_fails:
  "from_dict (to_dict p) =
     Inl (case predicate_type p of None \<Rightarrow> ValueError_PredicateType | Some t \<Rightarrow> KeyError ''obj'')"
  by (simp add: from_dict_def to_dict_def dict_get_def dict_item_def split: option.splits)

text \<open>
  C5. \<open>from_dict\<close> on a dict without the key \<open>type\<close> fails with the \<open>ValueError\<close> of
  \<open>PredicateType(None)\<close>, whatever else the dict holds; so does the dict with just the
  three required keys. The dict with the three required keys and a valid type fails with
  \<open>KeyError('obj')\<close>. A dict whose type is not the value of a member fails with the
  \<open>ValueError\<close> of \<open>PredicateType\<close>.
\<close>

theorem from_dict_fails:
  "from_dict (data(''type'' := None)) = Inl ValueError_PredicateType
   \<and> from_dict [''subject'' \<mapsto> VObj (PyStr ''s''), ''predicate'' \<mapsto> VObj (PyStr ''r''),
                 ''object'' \<mapsto> VObj (PyStr ''o'')] = Inl ValueError_PredicateType
   \<and> from_dict [''subject'' \<mapsto> VObj (PyStr ''s''), ''predicate'' \<mapsto> VObj (PyStr ''r''),
                 ''object'' \<mapsto> VObj (PyStr ''o''), ''type'' \<mapsto> VObj (PyStr ''assertion'')]
        = Inl (KeyError ''obj'')
   \<and> from_dict (data(''type'' \<mapsto> VObj (PyStr ''bogus''))) = Inl ValueError_PredicateType"
  by (simp add: from_dict_def dict_get_def dict_item_def)

end
